theory Spec2Isabelle
  imports Complex_Main "HOL-Library.Multiset" "HOL-Library.Log_Nat"
begin

section \<open>JavaScript numbers\<close>

text \<open>
  \<^verbatim>\<open>+\<close> and \<^verbatim>\<open>*\<close> on numbers give the double nearest to the exact result, ties to
  the even significand. \<open>to_double\<close> is that rounding on the rationals: with
  \<open>2 ^ e \<le> \<bar>x\<bar> < 2 ^ (e + 1)\<close> the doubles around \<open>x\<close> are the multiples of
  \<open>2 ^ (e - 52)\<close>, and of \<open>2 ^ (- 1074)\<close> below the normal range. Overflow to
  \<^verbatim>\<open>Infinity\<close> is left out: the results are those of the machine below \<open>2 ^ 1024\<close>.
\<close>

definition ilog2 :: "rat \<Rightarrow> int" where
  "ilog2 x = (case quotient_of x of (p, q) \<Rightarrow>
     (let e = bitlen p - bitlen q in if 2 powi e \<le> x then e else e - 1))"

definition round_half_even :: "rat \<Rightarrow> int" where
  "round_half_even r =
     (let f = \<lfloor>r\<rfloor>; d = r - of_int f
      in if d < 1 / 2 then f else if 1 / 2 < d then f + 1 else if even f then f else f + 1)"

definition to_double :: "rat \<Rightarrow> rat" where
  "to_double x =
     (if x = 0 then 0
      else let u = 2 powi (max (ilog2 \<bar>x\<bar>) (- 1022) - 52)
           in of_int (round_half_even (x / u)) * u)"

definition js_add :: "rat \<Rightarrow> rat \<Rightarrow> rat" where
  "js_add x y = to_double (x + y)"

definition js_mul :: "rat \<Rightarrow> rat \<Rightarrow> rat" where
  "js_mul x y = to_double (x * y)"

text \<open>
  \<^verbatim>\<open>item.quantity + 1\<close> on an integer quantity: the double nearest to the sum, which is
  an integer again (\<open>to_double_of_int_Ints\<close> below), read back as an \<open>int\<close>.
\<close>

definition plus_one :: "int \<Rightarrow> int" where
  "plus_one q = \<lfloor>js_add (of_int q) 1\<rfloor>"

section \<open>The cart of the gallery storefront (frontend/src/App.js)\<close>

text \<open>
  An artwork is the record the catalog service returns; the cart only reads its
  identifier and its price, the title and the image reference are carried along.
  A cart line is the artwork with one more property, \<open>quantity\<close>
  (\<^verbatim>\<open>{ ...artwork, quantity: 1 }\<close>), so it is the record extended by that field.
  The field \<^verbatim>\<open>id\<close> is called \<open>id_of\<close> here.

  A JavaScript number is an IEEE 754 double. A price is the rational number that the
  double denotes. A quantity is an integer, an \<open>int\<close> here; the cart does one
  operation on it, \<^verbatim>\<open>item.quantity + 1\<close>, which is \<open>plus_one\<close>.
\<close>

record artwork =
  id_of :: string
  title :: string
  price :: rat
  image_url :: string

record cart_item = artwork +
  quantity :: int

text \<open>\<^verbatim>\<open>{ ...artwork, quantity: q }\<close>\<close>

definition with_quantity :: "artwork \<Rightarrow> int \<Rightarrow> cart_item" where
  "with_quantity a q =
     \<lparr>id_of = id_of a, title = title a, price = price a, image_url = image_url a,
      quantity = q\<rparr>"

text \<open>
  \<^verbatim>\<open>addToCart\<close>: \<^verbatim>\<open>prevCart.find\<close> gives the first line with the artwork's identifier
  or \<^verbatim>\<open>undefined\<close>; a line is an object, so the test \<^verbatim>\<open>if (existingItem)\<close> is the
  test that one was found.
\<close>

definition addToCart :: "artwork \<Rightarrow> cart_item list \<Rightarrow> cart_item list" where
  "addToCart a prevCart =
     (case find (\<lambda>item. id_of item = id_of a) prevCart of
        Some existingItem \<Rightarrow>
          map (\<lambda>item. if id_of item = id_of a
                        then item\<lparr>quantity := plus_one (quantity item)\<rparr> else item)
            prevCart
      | None \<Rightarrow> prevCart @ [with_quantity a 1])"

definition removeFromCart :: "string \<Rightarrow> cart_item list \<Rightarrow> cart_item list" where
  "removeFromCart artworkId prevCart = filter (\<lambda>item. id_of item \<noteq> artworkId) prevCart"

definition updateCartQuantity :: "string \<Rightarrow> int \<Rightarrow> cart_item list \<Rightarrow> cart_item list" where
  "updateCartQuantity artworkId q prevCart =
     (if q = 0 then removeFromCart artworkId prevCart
      else map (\<lambda>item. if id_of item = artworkId then item\<lparr>quantity := q\<rparr> else item)
             prevCart)"

text \<open>
  The invariant of the cart: no two lines with one identifier, every quantity at least 1.
\<close>

definition cart_inv :: "cart_item list \<Rightarrow> bool" where
  "cart_inv c \<longleftrightarrow> distinct (map id_of c) \<and> list_all (\<lambda>item. 1 \<le> quantity item) c"


text \<open>A sequence of cart operations, run from a given cart.\<close>

datatype cart_op = AddItem artwork | RemoveItem string | SetQuantity string int

fun apply_op :: "cart_op \<Rightarrow> cart_item list \<Rightarrow> cart_item list" where
  "apply_op (AddItem a) c = addToCart a c"
| "apply_op (RemoveItem k) c = removeFromCart k c"
| "apply_op (SetQuantity k q) c = updateCartQuantity k q c"

definition run_ops :: "cart_op list \<Rightarrow> cart_item list \<Rightarrow> cart_item list" where
  "run_ops ops c = foldl (\<lambda>c' op. apply_op op c') c ops"

text \<open>
  \<^verbatim>\<open>getCartTotal\<close>:
  \<^verbatim>\<open>cart.reduce((total, item) => total + item.price * item.quantity, 0)\<close>.
\<close>

definition getCartTotal :: "cart_item list \<Rightarrow> rat" where
  "getCartTotal c =
     foldl (\<lambda>total item. js_add total (js_mul (price item) (of_int (quantity item)))) 0 c"

text \<open>The sum of price times quantity over the lines, in exact arithmetic.\<close>

definition exact_total :: "cart_item list \<Rightarrow> rat" where
  "exact_total c = (\<Sum>item\<leftarrow>c. price item * of_int (quantity item))"

text \<open>The sum of the magnitudes of the lines' amounts, in exact arithmetic.\<close>

definition abs_total :: "cart_item list \<Rightarrow> rat" where
  "abs_total c = (\<Sum>item\<leftarrow>c. \<bar>price item * of_int (quantity item)\<bar>)"

section \<open>The state of the application and its handlers\<close>

text \<open>
  The body of the session-creation request:
  \<^verbatim>\<open>{ items: cart.map(item => ({artwork_id: item.id, quantity: item.quantity})),
     customer_email: 'customer@example.com' }\<close>.
\<close>

record checkout_request =
  items :: "(string \<times> int) list"
  customer_email :: string

definition checkoutData :: "cart_item list \<Rightarrow> checkout_request" where
  "checkoutData c =
     \<lparr>items = map (\<lambda>item. (id_of item, quantity item)) c,
      customer_email = ''customer@example.com''\<rparr>"

text \<open>
  What \<^verbatim>\<open>await fetch(...)\<close> and the reading of the response come to:
  \<^item> \<open>NetworkError\<close>: \<^verbatim>\<open>fetch\<close> rejects;
  \<^item> \<open>Response ok body\<close>: a response with \<^verbatim>\<open>response.ok = ok\<close>, where \<open>body\<close> is
    \<open>BodyThrows\<close> when \<^verbatim>\<open>response.json()\<close> rejects or \<^verbatim>\<open>data.session_url\<close> throws
    (\<^verbatim>\<open>data\<close> is \<^verbatim>\<open>null\<close>), and \<open>BodyData u\<close> when \<^verbatim>\<open>data.session_url\<close> is read, \<open>u\<close>
    being the string that the assignment to \<^verbatim>\<open>window.location.href\<close> takes.
\<close>

datatype response_body = BodyThrows | BodyData string

datatype fetch_result = NetworkError | Response bool response_body

text \<open>
  The state: the three \<^verbatim>\<open>useState\<close> cells that the cart and the checkout use, and what
  the handlers do to the world around them: the messages given to \<^verbatim>\<open>alert\<close>, the
  requests given to \<^verbatim>\<open>fetch\<close>, the URL assigned to \<^verbatim>\<open>window.location.href\<close> (\<open>None\<close>
  while none was), and the number of calls of \<^verbatim>\<open>handleCheckout\<close> that wait for their
  \<^verbatim>\<open>fetch\<close> to settle.
\<close>

record app_state =
  cart :: "cart_item list"
  currentView :: string
  isCheckingOut :: bool
  alerts :: "string list"
  fetches :: "checkout_request list"
  location_href :: "string option"
  pending :: nat

definition initial_state :: app_state where
  "initial_state =
     \<lparr>cart = [], currentView = ''home'', isCheckingOut = False, alerts = [], fetches = [],
      location_href = None, pending = 0\<rparr>"

definition alert :: "string \<Rightarrow> app_state \<Rightarrow> app_state" where
  "alert msg s = s\<lparr>alerts := alerts s @ [msg]\<rparr>"

text \<open>
  \<^verbatim>\<open>handleCheckout\<close> is asynchronous. \<open>handleCheckout_start\<close> is the part that runs at the
  click, up to \<^verbatim>\<open>await fetch(...)\<close>; \<open>handleCheckout_settle\<close> is the rest, run when the
  request has settled, on the state of that moment: the \<^verbatim>\<open>try\<close> block after the
  \<^verbatim>\<open>await\<close>, the \<^verbatim>\<open>catch\<close> block and the \<^verbatim>\<open>finally\<close> block. \<open>handleCheckout\<close> is one
  call with nothing in between.
\<close>

text \<open>A failed session creation: a network error, or a response that is not 2xx.\<close>

fun request_failed :: "fetch_result \<Rightarrow> bool" where
  "request_failed NetworkError = True"
| "request_failed (Response ok body) = (\<not> ok)"

definition handleCheckout_start :: "app_state \<Rightarrow> app_state" where
  "handleCheckout_start s =
     (if length (cart s) = 0 then alert ''Your cart is empty!'' s
      else s\<lparr>isCheckingOut := True,
             fetches := fetches s @ [checkoutData (cart s)],
             pending := pending s + 1\<rparr>)"

definition checkout_failed_msg :: string where
  "checkout_failed_msg = ''Failed to start checkout. Please try again.''"

definition handleCheckout_settle :: "fetch_result \<Rightarrow> app_state \<Rightarrow> app_state" where
  "handleCheckout_settle r s =
     (let s1 = (case r of
                  NetworkError \<Rightarrow> alert checkout_failed_msg s
                | Response ok body \<Rightarrow>
                    if \<not> ok then alert checkout_failed_msg s
                    else (case body of
                            BodyThrows \<Rightarrow> alert checkout_failed_msg s
                          | BodyData url \<Rightarrow> s\<lparr>location_href := Some url\<rparr>))
      in s1\<lparr>isCheckingOut := False, pending := pending s1 - 1\<rparr>)"

definition handleCheckout :: "fetch_result \<Rightarrow> app_state \<Rightarrow> app_state" where
  "handleCheckout r s =
     (let s1 = handleCheckout_start s
      in if pending s < pending s1 then handleCheckout_settle r s1 else s1)"

text \<open>
  The effect run at mount (and again when the category filter changes). The query string
  comes parsed, as the list of name and value pairs of \<^verbatim>\<open>URLSearchParams\<close>; \<^verbatim>\<open>get\<close> gives
  the first value of a name, or \<^verbatim>\<open>null\<close>. \<^verbatim>\<open>if (sessionId)\<close> tests a string or
  \<^verbatim>\<open>null\<close>: the empty string and \<^verbatim>\<open>null\<close> are falsy. The two catalog requests of the
  effect do not touch the state above.
\<close>

type_synonym url_params = "(string \<times> string) list"

definition params_get :: "url_params \<Rightarrow> string \<Rightarrow> string option" where
  "params_get ps name = map_option snd (find (\<lambda>(n, v). n = name) ps)"

definition truthy :: "string option \<Rightarrow> bool" where
  "truthy v = (case v of None \<Rightarrow> False | Some str \<Rightarrow> str \<noteq> [])"

definition mountEffect :: "url_params \<Rightarrow> app_state \<Rightarrow> app_state" where
  "mountEffect ps s =
     (let sessionId = params_get ps ''session_id''
      in if truthy sessionId then s\<lparr>currentView := ''success''\<rparr> else s)"

text \<open>The \<^verbatim>\<open>onClick\<close> of the button of \<^verbatim>\<open>SuccessPage\<close>.\<close>

definition continueShopping :: "app_state \<Rightarrow> app_state" where
  "continueShopping s = s\<lparr>cart := [], currentView := ''home''\<rparr>"

text \<open>\<^verbatim>\<open>renderCurrentView\<close>: the \<^verbatim>\<open>switch\<close> over the view, by the component it returns.\<close>

datatype page = HomePage | GalleryPage | ArtworkDetailPage | AboutPage | ContactPage
  | SuccessPage

definition renderCurrentView :: "string \<Rightarrow> page" where
  "renderCurrentView v =
     (if v = ''home'' then HomePage
      else if v = ''gallery'' then GalleryPage
      else if v = ''artwork-detail'' then ArtworkDetailPage
      else if v = ''about'' then AboutPage
      else if v = ''contact'' then ContactPage
      else HomePage)"

text \<open>
  The events of a page session, each with the handler it runs. The checkout button is in
  the document only while the cart has a line (\<^verbatim>\<open>cart.length > 0 && ...\<close>) and takes no
  click while \<^verbatim>\<open>disabled={isCheckingOut}\<close>; a request can settle only while one is
  awaited; the button of \<^verbatim>\<open>SuccessPage\<close> can be clicked only where that page is what
  \<^verbatim>\<open>renderCurrentView\<close> returns.
\<close>

datatype event =
    EvAddToCart artwork
  | EvRemoveFromCart string
  | EvUpdateCartQuantity string int
  | EvSetCurrentView string
  | EvCheckoutClick
  | EvFetchSettled fetch_result
  | EvContinueShopping
  | EvMountEffect url_params

definition checkout_enabled :: "app_state \<Rightarrow> bool" where
  "checkout_enabled s \<longleftrightarrow> length (cart s) > 0 \<and> \<not> isCheckingOut s"

fun step :: "event \<Rightarrow> app_state \<Rightarrow> app_state" where
  "step (EvAddToCart a) s = s\<lparr>cart := addToCart a (cart s)\<rparr>"
| "step (EvRemoveFromCart k) s = s\<lparr>cart := removeFromCart k (cart s)\<rparr>"
| "step (EvUpdateCartQuantity k q) s = s\<lparr>cart := updateCartQuantity k q (cart s)\<rparr>"
| "step (EvSetCurrentView v) s = s\<lparr>currentView := v\<rparr>"
| "step EvCheckoutClick s = (if checkout_enabled s then handleCheckout_start s else s)"
| "step (EvFetchSettled r) s = (if pending s > 0 then handleCheckout_settle r s else s)"
| "step EvContinueShopping s =
     (if renderCurrentView (currentView s) = SuccessPage then continueShopping s else s)"
| "step (EvMountEffect ps) s = mountEffect ps s"

definition run :: "event list \<Rightarrow> app_state \<Rightarrow> app_state" where
  "run evs s = foldl (\<lambda>s' e. step e s') s evs"

section \<open>Example data\<close>

definition artA :: artwork where
  "artA = \<lparr>id_of = ''A'', title = ''Dawn'', price = 100, image_url = ''a.jpg''\<rparr>"

definition artB :: artwork where
  "artB = \<lparr>id_of = ''B'', title = ''Dusk'', price = 50, image_url = ''b.jpg''\<rparr>"

text \<open>Three artworks priced 19.99, 29.99 and 149.95, as the doubles of these decimals.\<close>

definition artP :: artwork where
  "artP = \<lparr>id_of = ''P'', title = ''Pier'', price = to_double (1999 / 100),
            image_url = ''p.jpg''\<rparr>"

definition artQ :: artwork where
  "artQ = \<lparr>id_of = ''Q'', title = ''Quay'', price = to_double (2999 / 100),
            image_url = ''q.jpg''\<rparr>"

definition artR :: artwork where
  "artR = \<lparr>id_of = ''R'', title = ''Reef'', price = to_double (14995 / 100),
            image_url = ''r.jpg''\<rparr>"


text \<open>
  A session in which a checkout succeeded: one artwork added, the checkout button
  clicked, the request answered with a session URL.
\<close>

definition session_url :: string where
  "session_url = ''https://checkout.example/pay/cs_test_1''"

definition redirected_state :: app_state where
  "redirected_state =
     run [EvAddToCart artA, EvCheckoutClick,
          EvFetchSettled (Response True (BodyData session_url))] initial_state"

section \<open>Facts about the rounding\<close>

text \<open>
  Two known values of the machine: the double of 0.1, and 0.1 + 0.2, which is
  0.30000000000000004 and not the double of 0.3.
\<close>

lemma to_double_known_values:
  "to_double (1 / 10) = 3602879701896397 / 2 ^ 55"
  "js_add (to_double (1 / 10)) (to_double (2 / 10)) = 1351079888211149 / 2 ^ 52"
  "to_double (3 / 10) = 5404319552844595 / 2 ^ 54"
  by code_simp+

text \<open>An integer of magnitude at most \<open>2 ^ 53\<close> is a double.\<close>

lemma round_half_even_of_int: "round_half_even (of_int k) = k"
  by (simp add: round_half_even_def)

lemma ilog2_of_int:
  assumes "0 < n"
  shows "ilog2 (of_int n) = bitlen n - 1"
proof -
  have b1: "bitlen 1 = 1" by (simp add: bitlen_alt_def)
  have ge: "1 \<le> bitlen n" using assms by (simp add: bitlen_alt_def)
  have "2 ^ nat (bitlen n - 1) \<le> n" using bitlen_bounds[OF assms] by simp
  then have "(of_int (2 ^ nat (bitlen n - 1)) :: rat) \<le> of_int n"
    by (simp only: of_int_le_iff)
  then have "(2::rat) powi (bitlen n - 1) \<le> of_int n"
    using ge by (simp add: power_int_nonneg_exp)
  then show ?thesis
    by (simp add: ilog2_def b1)
qed

lemma to_double_of_int:
  assumes "\<bar>n\<bar> \<le> 2 ^ 53"
  shows "to_double (of_int n) = of_int n"
proof (cases "n = 0")
  case True
  then show ?thesis by (simp add: to_double_def)
next
  case False
  then have pos: "0 < \<bar>n\<bar>" by simp
  define e where "e = bitlen \<bar>n\<bar> - 1"
  have e: "ilog2 \<bar>of_int n\<bar> = e"
    using ilog2_of_int[OF pos] by (simp add: e_def)
  have e0: "0 \<le> e" using pos by (simp add: e_def bitlen_alt_def)
  have lo: "2 ^ nat e \<le> \<bar>n\<bar>" using bitlen_bounds[OF pos] by (simp add: e_def)
  define u :: rat where "u = 2 powi (e - 52)"
  have upos: "0 < u" by (simp add: u_def)
  have "\<exists>k. (of_int n :: rat) / u = of_int k"
  proof (cases "e \<le> 52")
    case True
    then have "u = 1 / 2 ^ nat (52 - e)"
      using power_int_minus_divide[of "2::rat" "52 - e"] by (simp add: u_def power_int_nonneg_exp)
    then have "(of_int n :: rat) / u = of_int (n * 2 ^ nat (52 - e))" by simp
    then show ?thesis by blast
  next
    case False
    then have "53 \<le> e" by simp
    then have "(2::int) ^ 53 \<le> 2 ^ nat e"
      by (intro power_increasing) auto
    with lo assms have abs: "\<bar>n\<bar> = 2 ^ 53" by linarith
    then have "bitlen \<bar>n\<bar> = 54" using bitlen_pow2[of 1 53] by (simp add: bitlen_alt_def)
    then have "e = 53" by (simp add: e_def)
    then have u2: "u = 2" by (simp add: u_def)
    from abs have "n = 2 ^ 53 \<or> n = - (2 ^ 53)" by linarith
    then have "(of_int n :: rat) / 2 = of_int (n div 2)" by auto
    then show ?thesis using u2 by auto
  qed
  then obtain k where k: "(of_int n :: rat) / u = of_int k" by blast
  have "to_double (of_int n) = of_int (round_half_even (of_int n / u)) * u"
    using \<open>n \<noteq> 0\<close> e e0 by (simp add: to_double_def u_def max_def Let_def)
  also have "\<dots> = of_int k * u" by (simp add: k round_half_even_of_int)
  also have "\<dots> = of_int n" using k upos by (simp add: field_simps)
  finally show ?thesis .
qed

lemma round_half_even_ge_floor: "\<lfloor>r\<rfloor> \<le> round_half_even r"
  by (simp add: round_half_even_def Let_def)

text \<open>The double of a positive integer is at least 1, and the double of an integer is an integer.\<close>

lemma to_double_of_int_ge_1:
  assumes "1 \<le> n"
  shows "1 \<le> to_double (of_int n)"
proof -
  have pos: "0 < n" using assms by simp
  define e where "e = bitlen n - 1"
  have e: "ilog2 \<bar>of_int n\<bar> = e"
    using ilog2_of_int[OF pos] pos by (simp add: e_def)
  have e0: "0 \<le> e" using pos by (simp add: e_def bitlen_alt_def)
  have "2 ^ nat e \<le> n" using bitlen_bounds[OF pos] by (simp add: e_def)
  then have "(of_int (2 ^ nat e) :: rat) \<le> of_int n" by (simp only: of_int_le_iff)
  then have lo: "(2::rat) powi e \<le> of_int n" using e0 by (simp add: power_int_nonneg_exp)
  define u :: rat where "u = 2 powi (e - 52)"
  have upos: "0 < u" by (simp add: u_def)
  have ue: "2 ^ 52 * u = 2 powi e"
    using power_int_add[of "2::rat" 52 "e - 52"] by (simp add: u_def)
  have "(2::rat) ^ 52 \<le> of_int n / u"
    using lo upos ue by (simp add: field_simps)
  then have "(of_int (2 ^ 52) :: rat) \<le> of_int n / u" by simp
  then have "2 ^ 52 \<le> \<lfloor>(of_int n :: rat) / u\<rfloor>" by (simp only: le_floor_iff)
  then have k: "2 ^ 52 \<le> round_half_even (of_int n / u)"
    using round_half_even_ge_floor[of "of_int n / u"] by linarith
  have td: "to_double (of_int n) = of_int (round_half_even (of_int n / u)) * u"
    using pos e e0 by (simp add: to_double_def u_def max_def Let_def)
  have "(2::rat) ^ 52 \<le> of_int (round_half_even (of_int n / u))"
    using k by (metis of_int_le_iff of_int_numeral of_int_power)
  then have "2 ^ 52 * u \<le> of_int (round_half_even (of_int n / u)) * u"
    using upos by (simp add: mult_right_mono)
  moreover have "(1::rat) \<le> 2 powi e" using e0 by simp
  ultimately show ?thesis using td ue by linarith
qed

lemma to_double_of_int_Ints: "to_double (of_int n) \<in> \<int>"
proof (cases "\<bar>n\<bar> \<le> 2 ^ 53")
  case True
  then show ?thesis by (simp add: to_double_of_int)
next
  case False
  then have big: "2 ^ 53 < \<bar>n\<bar>" and pos: "0 < \<bar>n\<bar>" by simp_all
  define e where "e = bitlen \<bar>n\<bar> - 1"
  have e: "ilog2 \<bar>of_int n\<bar> = e"
    using ilog2_of_int[OF pos] by (simp add: e_def)
  have "\<bar>n\<bar> < 2 ^ nat (bitlen \<bar>n\<bar>)" using bitlen_bounds[OF pos] by simp
  with big have "(2::int) ^ 53 < 2 ^ nat (bitlen \<bar>n\<bar>)" by linarith
  then have "53 < nat (bitlen \<bar>n\<bar>)" by (simp only: power_strict_increasing_iff one_less_numeral_iff semiring_norm)
  then have e53: "53 \<le> e" by (simp add: e_def)
  define u :: rat where "u = 2 powi (e - 52)"
  have "u = of_int (2 ^ nat (e - 52))"
    using e53 by (simp add: u_def power_int_nonneg_exp)
  then have "of_int (round_half_even (of_int n / u)) * u \<in> \<int>"
    by (metis Ints_mult Ints_of_int)
  moreover have "to_double (of_int n) = of_int (round_half_even (of_int n / u)) * u"
    using pos e e53 by (simp add: to_double_def u_def max_def Let_def)
  ultimately show ?thesis by simp
qed

text \<open>
  \<open>plus_one\<close> adds 1 below \<open>2 ^ 53\<close>, leaves \<open>2 ^ 53\<close> as it is, and keeps a quantity
  of at least 1 at least 1.
\<close>

lemma plus_one_small:
  assumes "\<bar>q\<bar> < 2 ^ 53"
  shows "plus_one q = q + 1"
proof -
  have "\<bar>q + 1\<bar> \<le> 2 ^ 53" using assms by simp
  then have "to_double (of_int (q + 1)) = of_int (q + 1)" by (rule to_double_of_int)
  then show ?thesis by (simp add: plus_one_def js_add_def)
qed

lemma plus_one_1: "plus_one 1 = 2"
  using plus_one_small[of 1] by simp

lemma plus_one_2_53: "plus_one 9007199254740992 = 9007199254740992"
  by code_simp

lemma plus_one_ge_1:
  assumes "1 \<le> q"
  shows "1 \<le> plus_one q"
proof -
  have "1 \<le> to_double (of_int (q + 1))"
    using assms by (intro to_double_of_int_ge_1) simp
  then have "(of_int 1 :: rat) \<le> js_add (of_int q) 1" by (simp add: js_add_def)
  then show ?thesis unfolding plus_one_def by (simp only: le_floor_iff)
qed

section \<open>The cart operations\<close>

lemma find_id_None: "find (\<lambda>item. id_of item = k) c = None \<longleftrightarrow> k \<notin> id_of ` set c"
  by (auto simp: find_None_iff)

lemma map_id_bump:
  "map id_of (map (\<lambda>item. if id_of item = k then item\<lparr>quantity := f item\<rparr> else item) c)
     = map id_of c"
  by (induction c) auto

lemma addToCart_present:
  assumes "k \<in> id_of ` set c" and "id_of a = k"
  shows "addToCart a c =
     map (\<lambda>item. if id_of item = k then item\<lparr>quantity := plus_one (quantity item)\<rparr>
                  else item) c"
proof -
  from assms(1) obtain x where "find (\<lambda>item. id_of item = k) c = Some x"
    using find_id_None[of k c] by (cases "find (\<lambda>item. id_of item = k) c") auto
  then show ?thesis by (simp add: addToCart_def assms(2))
qed

lemma addToCart_absent:
  assumes "id_of a \<notin> id_of ` set c"
  shows "addToCart a c = c @ [with_quantity a 1]"
  using assms find_id_None[of "id_of a" c] by (simp add: addToCart_def)

lemma addToCart_inv: "cart_inv c \<Longrightarrow> cart_inv (addToCart a c)"
proof (cases "id_of a \<in> id_of ` set c")
  case True
  assume inv: "cart_inv c"
  let ?c' = "map (\<lambda>item. if id_of item = id_of a
                          then item\<lparr>quantity := plus_one (quantity item)\<rparr> else item) c"
  have "distinct (map id_of ?c')" using inv by (simp only: map_id_bump cart_inv_def)
  moreover have "list_all (\<lambda>item. 1 \<le> quantity item) ?c'"
    using inv by (auto simp: cart_inv_def list_all_iff plus_one_ge_1)
  ultimately show ?thesis
    using addToCart_present[OF True refl] by (simp only: cart_inv_def simp_thms)
next
  case False
  assume "cart_inv c"
  then show ?thesis
    using False by (auto simp: addToCart_absent cart_inv_def with_quantity_def)
qed

lemma removeFromCart_inv: "cart_inv c \<Longrightarrow> cart_inv (removeFromCart k c)"
  by (auto simp: cart_inv_def removeFromCart_def list_all_iff distinct_map_filter)

lemma updateCartQuantity_inv:
  assumes inv: "cart_inv c" and q: "0 \<le> q"
  shows "cart_inv (updateCartQuantity k q c)"
proof (cases "q = 0")
  case True
  then show ?thesis using removeFromCart_inv[OF inv] by (simp add: updateCartQuantity_def)
next
  case False
  let ?c' = "map (\<lambda>item. if id_of item = k then item\<lparr>quantity := q\<rparr> else item) c"
  have "distinct (map id_of ?c')" using inv by (simp only: map_id_bump cart_inv_def)
  moreover have "list_all (\<lambda>item. 1 \<le> quantity item) ?c'"
    using inv q False by (auto simp: cart_inv_def list_all_iff)
  ultimately show ?thesis
    using False by (simp only: updateCartQuantity_def cart_inv_def if_False simp_thms)
qed

lemma removeFromCart_absent: "k \<notin> id_of ` set c \<Longrightarrow> removeFromCart k c = c"
  by (induction c) (auto simp: removeFromCart_def)

text \<open>
  C1, as stated, fails: a negative quantity is stored in the line, so a cart with one
  line of quantity 1 leaves the invariant under \<open>updateCartQuantity\<close> with \<open>- 1\<close>.
\<close>

theorem C1_counterexample:
  "cart_inv [with_quantity artA 1] \<and>
   \<not> cart_inv (updateCartQuantity ''A'' (- 1) [with_quantity artA 1])"
  by (simp add: cart_inv_def updateCartQuantity_def with_quantity_def artA_def)

text \<open>
  C1, amended: on a cart with at most one line per identifier and every quantity at
  least 1, \<open>addToCart\<close>, \<open>removeFromCart\<close> and \<open>updateCartQuantity\<close> with a quantity
  that is not negative give a cart with these two properties again.
\<close>

theorem C1_invariant_preserved:
  assumes "cart_inv c"
  shows "cart_inv (addToCart a c) \<and> cart_inv (removeFromCart k c) \<and>
         (0 \<le> q \<longrightarrow> cart_inv (updateCartQuantity k q c))"
  using assms addToCart_inv removeFromCart_inv updateCartQuantity_inv by blast

theorem C1_invariant_preserved_witness:
  "cart_inv [with_quantity artA 1] \<and>
   cart_inv (addToCart artA [with_quantity artA 1]) \<and>
   cart_inv (removeFromCart ''A'' [with_quantity artA 1]) \<and>
   cart_inv (updateCartQuantity ''A'' 3 [with_quantity artA 1])"
proof -
  have h: "cart_inv [with_quantity artA 1]"
    by (simp add: cart_inv_def with_quantity_def)
  show ?thesis
    using h C1_invariant_preserved[OF h, of artA "''A''" 3] by simp
qed

text \<open>
  C2, as stated, fails: \<open>updateCartQuantity\<close> with \<open>- 1\<close> is not refused, the line gets
  the quantity \<open>- 1\<close>.
\<close>

theorem C2_counterexample:
  "(- 1 :: int) < 0 \<and>
   updateCartQuantity ''A'' (- 1) [with_quantity artA 2] = [with_quantity artA (- 1)] \<and>
   updateCartQuantity ''A'' (- 1) [with_quantity artA 2] \<noteq> [with_quantity artA 2]"
  by (simp add: updateCartQuantity_def with_quantity_def artA_def)

text \<open>
  C2, amended: for a negative quantity \<open>q\<close>, \<open>updateCartQuantity\<close> removes no line and
  keeps the order of the lines, leaves every line with another identifier as it was and
  gives each line with the identifier the quantity \<open>q\<close>. The cart is unchanged if no
  line has the identifier, and it is changed if one has and the cart satisfied the
  invariant.
\<close>

theorem C2_negative_quantity_stored:
  assumes "q < 0"
  shows "length (updateCartQuantity k q c) = length c \<and>
         (\<forall>i<length c. updateCartQuantity k q c ! i =
            (if id_of (c ! i) = k then (c ! i)\<lparr>quantity := q\<rparr> else c ! i)) \<and>
         (k \<notin> id_of ` set c \<longrightarrow> updateCartQuantity k q c = c) \<and>
         (k \<in> id_of ` set c \<and> cart_inv c \<longrightarrow> updateCartQuantity k q c \<noteq> c)"
proof -
  let ?f = "\<lambda>item. if id_of item = k then item\<lparr>quantity := q\<rparr> else item"
  have eq: "updateCartQuantity k q c = map ?f c"
    using assms by (simp add: updateCartQuantity_def)
  have absent: "updateCartQuantity k q c = c" if "k \<notin> id_of ` set c"
  proof -
    have "map ?f c = map (\<lambda>item. item) c" using that by (intro map_cong) auto
    then show ?thesis by (simp add: eq)
  qed
  have present: "updateCartQuantity k q c \<noteq> c" if "k \<in> id_of ` set c" and "cart_inv c"
  proof
    assume same: "updateCartQuantity k q c = c"
    from that(1) obtain x where x: "x \<in> set c" "id_of x = k" by auto
    have "map ?f c = map (\<lambda>item. item) c" using same eq by simp
    then have "?f x = x" using x(1) by (simp only: map_eq_conv)
    then have "x\<lparr>quantity := q\<rparr> = x" using x(2) by simp
    then have "x\<lparr>quantity := q\<rparr> \<in> set c" using x(1) by simp
    then have "1 \<le> quantity (x\<lparr>quantity := q\<rparr>)"
      using that(2) by (auto simp: cart_inv_def list_all_iff)
    then show False using assms by simp
  qed
  show ?thesis using absent present by (simp add: eq)
qed

theorem C2_negative_quantity_stored_witness:
  "(- 1 :: int) < 0 \<and>
   length (updateCartQuantity ''A'' (- 1) [with_quantity artA 2, with_quantity artB 1]) = 2 \<and>
   updateCartQuantity ''A'' (- 1) [with_quantity artA 2, with_quantity artB 1] ! 0
     = (with_quantity artA 2)\<lparr>quantity := - 1\<rparr> \<and>
   updateCartQuantity ''A'' (- 1) [with_quantity artA 2, with_quantity artB 1] ! 1
     = with_quantity artB 1 \<and>
   updateCartQuantity ''A'' (- 1) [with_quantity artA 2, with_quantity artB 1]
     \<noteq> [with_quantity artA 2, with_quantity artB 1] \<and>
   updateCartQuantity ''C'' (- 1) [with_quantity artA 2, with_quantity artB 1]
     = [with_quantity artA 2, with_quantity artB 1]"
proof -
  let ?c = "[with_quantity artA 2, with_quantity artB 1]"
  have q: "(- 1 :: int) < 0" by simp
  have inv: "cart_inv ?c" by (simp add: cart_inv_def with_quantity_def artA_def artB_def)
  have ids: "''A'' \<in> id_of ` set ?c" "''C'' \<notin> id_of ` set ?c"
    by (simp_all add: with_quantity_def artA_def artB_def)
  have i0: "id_of (?c ! 0) = ''A''" and i1: "id_of (?c ! 1) \<noteq> ''A''"
    by (simp_all add: with_quantity_def artA_def artB_def)
  from C2_negative_quantity_stored[OF q, of "''A''" ?c] inv ids(1)
  have a: "length (updateCartQuantity ''A'' (- 1) ?c) = length ?c"
    and b: "\<forall>i<length ?c. updateCartQuantity ''A'' (- 1) ?c ! i =
            (if id_of (?c ! i) = ''A'' then (?c ! i)\<lparr>quantity := - 1\<rparr> else ?c ! i)"
    and d: "updateCartQuantity ''A'' (- 1) ?c \<noteq> ?c"
    by blast+
  from b have b0: "updateCartQuantity ''A'' (- 1) ?c ! 0 = (?c ! 0)\<lparr>quantity := - 1\<rparr>"
    using i0 by (metis length_Cons zero_less_Suc)
  from b have b1: "updateCartQuantity ''A'' (- 1) ?c ! 1 = ?c ! 1"
    using i1 by (metis One_nat_def length_Cons lessI list.size(3))
  from C2_negative_quantity_stored[OF q, of "''C''" ?c] ids(2)
  have e: "updateCartQuantity ''C'' (- 1) ?c = ?c" by blast
  show ?thesis using q a b0 b1 d e by simp
qed

text \<open>
  C6, as stated, fails: the quantity is a double, and on a line of quantity \<open>2 ^ 53\<close>
  (9007199254740992) \<^verbatim>\<open>item.quantity + 1\<close> is \<open>2 ^ 53\<close> again, so \<open>addToCart\<close> leaves
  the line as it is.
\<close>

theorem C6_counterexample:
  "addToCart artA [with_quantity artA 9007199254740992]
     = [with_quantity artA 9007199254740992] \<and>
   addToCart artA [with_quantity artA 9007199254740992]
     \<noteq> [with_quantity artA (9007199254740992 + 1)]"
  by (simp add: addToCart_def with_quantity_def artA_def plus_one_2_53)

text \<open>
  C6, amended: where the lines with the artwork's identifier have quantities of
  magnitude below \<open>2 ^ 53\<close>, \<open>addToCart\<close> on a cart with such a line keeps the number
  and the order of the lines and adds 1 to the quantity of the lines with that
  identifier (one line, where no identifier occurs twice: the line at its place with
  its quantity plus 1); on a cart without such a line it appends the artwork with
  quantity 1. Adding an artwork twice to the empty cart gives one line of quantity 2.
\<close>

theorem C6_addToCart:
  assumes "\<forall>item\<in>set c. id_of item = id_of a \<longrightarrow> \<bar>quantity item\<bar> < 2 ^ 53"
  shows
  "(id_of a \<in> id_of ` set c \<longrightarrow>
      length (addToCart a c) = length c \<and>
      (\<forall>i<length c. addToCart a c ! i =
         (if id_of (c ! i) = id_of a then (c ! i)\<lparr>quantity := quantity (c ! i) + 1\<rparr>
          else c ! i))) \<and>
   (\<forall>i<length c. distinct (map id_of c) \<and> id_of (c ! i) = id_of a \<longrightarrow>
      addToCart a c = c[i := (c ! i)\<lparr>quantity := quantity (c ! i) + 1\<rparr>]) \<and>
   (id_of a \<notin> id_of ` set c \<longrightarrow> addToCart a c = c @ [with_quantity a 1]) \<and>
   addToCart a (addToCart a []) = [with_quantity a 2]"
proof (intro conjI impI allI)
  have inc: "plus_one (quantity (c ! i)) = quantity (c ! i) + 1"
    if "i < length c" and "id_of (c ! i) = id_of a" for i
    using assms that by (intro plus_one_small) (metis nth_mem)
  {
    assume "id_of a \<in> id_of ` set c"
    then show "length (addToCart a c) = length c"
      by (simp add: addToCart_present[OF _ refl])
  next
    fix i
    assume "id_of a \<in> id_of ` set c" and "i < length c"
    then show "addToCart a c ! i =
           (if id_of (c ! i) = id_of a then (c ! i)\<lparr>quantity := quantity (c ! i) + 1\<rparr>
            else c ! i)"
      using inc[of i] by (simp add: addToCart_present[OF _ refl])
  next
    fix i
    assume i: "i < length c"
      and "distinct (map id_of c) \<and> id_of (c ! i) = id_of a"
    then have d: "distinct (map id_of c)" and ia: "id_of (c ! i) = id_of a" by simp_all
    have "id_of a \<in> id_of ` set c" using i ia by (metis imageI nth_mem)
    then have eq: "addToCart a c = map (\<lambda>item. if id_of item = id_of a
        then item\<lparr>quantity := plus_one (quantity item)\<rparr> else item) c"
      by (rule addToCart_present) simp
    show "addToCart a c = c[i := (c ! i)\<lparr>quantity := quantity (c ! i) + 1\<rparr>]"
    proof (rule nth_equalityI)
      show "length (addToCart a c) = length (c[i := (c ! i)\<lparr>quantity := quantity (c ! i) + 1\<rparr>])"
        by (simp add: eq)
    next
      fix j assume "j < length (addToCart a c)"
      then have j: "j < length c" by (simp add: eq)
      have "id_of (c ! j) = id_of a \<longleftrightarrow> j = i"
        using d i j ia nth_eq_iff_index_eq[of "map id_of c" j i] by auto
      then show "addToCart a c ! j = c[i := (c ! i)\<lparr>quantity := quantity (c ! i) + 1\<rparr>] ! j"
        using j i inc[OF i ia] by (auto simp: eq)
    qed
  next
    assume "id_of a \<notin> id_of ` set c"
    then show "addToCart a c = c @ [with_quantity a 1]" by (rule addToCart_absent)
  next
    show "addToCart a (addToCart a []) = [with_quantity a 2]"
      by (simp add: addToCart_def with_quantity_def plus_one_1)
  }
qed

theorem C6_addToCart_witness:
  "addToCart artB [with_quantity artA 1, with_quantity artB 2]
     = [with_quantity artA 1, with_quantity artB 3] \<and>
   addToCart artB [with_quantity artA 1] = [with_quantity artA 1, with_quantity artB 1] \<and>
   addToCart artA (addToCart artA []) = [with_quantity artA 2]"
proof -
  let ?c = "[with_quantity artA 1, with_quantity artB 2]"
  have b: "\<forall>item\<in>set ?c. id_of item = id_of artB \<longrightarrow> \<bar>quantity item\<bar> < 2 ^ 53"
    by (simp add: with_quantity_def artA_def artB_def)
  have b1: "\<forall>item\<in>set [with_quantity artA 1].
      id_of item = id_of artB \<longrightarrow> \<bar>quantity item\<bar> < 2 ^ 53"
    by (simp add: with_quantity_def artA_def artB_def)
  have b0: "\<forall>item\<in>set ([] :: cart_item list).
      id_of item = id_of artA \<longrightarrow> \<bar>quantity item\<bar> < 2 ^ 53"
    by simp
  have h: "(1::nat) < length ?c \<and> distinct (map id_of ?c) \<and> id_of (?c ! 1) = id_of artB"
    by (simp add: with_quantity_def artA_def artB_def)
  have n: "id_of artB \<notin> id_of ` set [with_quantity artA 1]"
    by (simp add: with_quantity_def artA_def artB_def)
  have 1: "addToCart artB ?c = ?c[1 := (?c ! 1)\<lparr>quantity := quantity (?c ! 1) + 1\<rparr>]"
    using C6_addToCart[OF b] h by blast
  have 2: "addToCart artB [with_quantity artA 1] = [with_quantity artA 1] @ [with_quantity artB 1]"
    using C6_addToCart[OF b1] n by blast
  have 3: "addToCart artA (addToCart artA []) = [with_quantity artA 2]"
    using C6_addToCart[OF b0] by blast
  show ?thesis using 1 2 3 by (simp add: with_quantity_def)
qed

text \<open>
  C7: \<open>updateCartQuantity\<close> with quantity 0 gives the cart that \<open>removeFromCart\<close> gives,
  and \<open>removeFromCart\<close> leaves a cart without a line of the identifier as it is.
\<close>

theorem C7_zero_is_remove:
  "updateCartQuantity k 0 c = removeFromCart k c \<and>
   (k \<notin> id_of ` set c \<longrightarrow> removeFromCart k c = c)"
  by (simp add: updateCartQuantity_def removeFromCart_absent)

theorem C7_zero_is_remove_witness:
  "updateCartQuantity ''B'' 0 [with_quantity artA 1] = removeFromCart ''B'' [with_quantity artA 1] \<and>
   removeFromCart ''B'' [with_quantity artA 1] = [with_quantity artA 1]"
proof -
  have n: "''B'' \<notin> id_of ` set [with_quantity artA 1]"
    by (simp add: with_quantity_def artA_def)
  show ?thesis using C7_zero_is_remove[of "''B''" "[with_quantity artA 1]"] n by simp
qed

section \<open>Checkout\<close>

lemma handleCheckout_empty:
  "cart s = [] \<Longrightarrow> handleCheckout r s = alert ''Your cart is empty!'' s"
  by (simp add: handleCheckout_def handleCheckout_start_def alert_def)

lemma handleCheckout_nonempty:
  "cart s \<noteq> [] \<Longrightarrow>
   handleCheckout r s =
     handleCheckout_settle r
       (s\<lparr>isCheckingOut := True, fetches := fetches s @ [checkoutData (cart s)],
          pending := pending s + 1\<rparr>)"
  by (simp add: handleCheckout_def handleCheckout_start_def)

lemma settle_failed:
  "request_failed r \<Longrightarrow>
   handleCheckout_settle r s =
     s\<lparr>alerts := alerts s @ [checkout_failed_msg], isCheckingOut := False,
       pending := pending s - 1\<rparr>"
  by (cases r) (simp_all add: handleCheckout_settle_def alert_def)

lemma settle_redirect:
  "handleCheckout_settle (Response True (BodyData u)) s =
     s\<lparr>location_href := Some u, isCheckingOut := False, pending := pending s - 1\<rparr>"
  by (simp add: handleCheckout_settle_def)

lemma settle_keeps_href:
  "location_href s = Some u \<Longrightarrow> \<exists>u'. location_href (handleCheckout_settle r s) = Some u'"
  by (cases r) (auto simp: handleCheckout_settle_def alert_def split: response_body.splits)

lemma step_keeps_href:
  assumes "location_href s = Some u"
  shows "\<exists>u'. location_href (step e s) = Some u'"
proof (cases e)
  case (EvFetchSettled r)
  then show ?thesis using settle_keeps_href[OF assms, of r] assms by simp
qed (simp_all add: assms handleCheckout_start_def alert_def mountEffect_def
      continueShopping_def)

lemma run_keeps_href:
  "location_href s = Some u \<Longrightarrow> \<exists>u'. location_href (run evs s) = Some u'"
  unfolding run_def
proof (induction evs arbitrary: s u)
  case Nil
  then show ?case by simp
next
  case (Cons e evs)
  from step_keeps_href[OF Cons.prems, of e] obtain u' where "location_href (step e s) = Some u'"
    by blast
  from Cons.IH[OF this] show ?case by simp
qed

text \<open>
  C4: on a cart with a line, a call of \<open>handleCheckout\<close> whose request fails (network
  error, or a response that is not 2xx) leaves the lines of the cart and their total as
  they were, clears \<open>isCheckingOut\<close>, and gives one message to \<open>alert\<close>; no URL is
  assigned. The second half says the same of the part of the call that runs after the
  request has settled, on whatever state it finds then.
\<close>

theorem C4_failed_checkout_keeps_cart:
  assumes "cart s \<noteq> []" and "request_failed r"
  shows "cart (handleCheckout r s) = cart s \<and>
         getCartTotal (cart (handleCheckout r s)) = getCartTotal (cart s) \<and>
         \<not> isCheckingOut (handleCheckout r s) \<and>
         alerts (handleCheckout r s) = alerts s @ [checkout_failed_msg] \<and>
         fetches (handleCheckout r s) = fetches s @ [checkoutData (cart s)] \<and>
         location_href (handleCheckout r s) = location_href s \<and>
         pending (handleCheckout r s) = pending s \<and>
         cart (handleCheckout_settle r s') = cart s' \<and>
         \<not> isCheckingOut (handleCheckout_settle r s') \<and>
         alerts (handleCheckout_settle r s') = alerts s' @ [checkout_failed_msg]"
  using assms by (simp add: handleCheckout_nonempty settle_failed)

theorem C4_failed_checkout_keeps_cart_witness:
  "cart (handleCheckout (Response False BodyThrows) (initial_state\<lparr>cart := [with_quantity artA 2]\<rparr>))
     = [with_quantity artA 2] \<and>
   \<not> isCheckingOut (handleCheckout (Response False BodyThrows)
       (initial_state\<lparr>cart := [with_quantity artA 2]\<rparr>)) \<and>
   alerts (handleCheckout (Response False BodyThrows)
       (initial_state\<lparr>cart := [with_quantity artA 2]\<rparr>))
     = [''Failed to start checkout. Please try again.'']"
proof -
  let ?s = "initial_state\<lparr>cart := [with_quantity artA 2]\<rparr>"
  have h1: "cart ?s \<noteq> []" by simp
  have h2: "request_failed (Response False BodyThrows)" by simp
  show ?thesis
    using C4_failed_checkout_keeps_cart[OF h1 h2, of ?s]
    by (simp add: initial_state_def checkout_failed_msg_def)
qed

text \<open>
  C5: on the empty cart \<open>handleCheckout\<close> only gives the message
  \<^verbatim>\<open>Your cart is empty!\<close> to \<open>alert\<close>: no request is given to \<open>fetch\<close>,
  \<open>isCheckingOut\<close> is not set, no call waits for a request, and the cart stays empty.
\<close>

theorem C5_empty_cart_refused:
  assumes "cart s = []"
  shows "handleCheckout r s = alert ''Your cart is empty!'' s \<and>
         fetches (handleCheckout r s) = fetches s \<and>
         isCheckingOut (handleCheckout r s) = isCheckingOut s \<and>
         pending (handleCheckout r s) = pending s \<and>
         location_href (handleCheckout r s) = location_href s \<and>
         alerts (handleCheckout r s) = alerts s @ [''Your cart is empty!''] \<and>
         cart (handleCheckout r s) = []"
  using assms by (simp add: handleCheckout_empty alert_def)

theorem C5_empty_cart_refused_witness:
  "fetches (handleCheckout NetworkError initial_state) = [] \<and>
   \<not> isCheckingOut (handleCheckout NetworkError initial_state) \<and>
   alerts (handleCheckout NetworkError initial_state) = [''Your cart is empty!''] \<and>
   cart (handleCheckout NetworkError initial_state) = []"
proof -
  have h: "cart initial_state = []" by (simp add: initial_state_def)
  show ?thesis
    using C5_empty_cart_refused[OF h, of NetworkError]
    by (simp add: initial_state_def alert_def)
qed

text \<open>
  C9, as stated, fails: in the session \<open>redirected_state\<close> the URL of the checkout
  session has been assigned to \<^verbatim>\<open>window.location.href\<close>, and the \<^verbatim>\<open>finally\<close> block of
  the same call has cleared \<open>isCheckingOut\<close>: the checkout button is enabled, and a
  click on it sends a second session-creation request.
\<close>

theorem C9_counterexample:
  "location_href redirected_state = Some session_url \<and>
   \<not> isCheckingOut redirected_state \<and>
   checkout_enabled redirected_state \<and>
   fetches redirected_state = [checkoutData [with_quantity artA 1]] \<and>
   fetches (step EvCheckoutClick redirected_state)
     = [checkoutData [with_quantity artA 1], checkoutData [with_quantity artA 1]] \<and>
   isCheckingOut (step EvCheckoutClick redirected_state)"
  by (simp add: redirected_state_def run_def initial_state_def addToCart_def
      checkout_enabled_def handleCheckout_start_def handleCheckout_settle_def)

text \<open>
  C9, amended: when the request has succeeded, the rest of \<open>handleCheckout\<close> assigns
  the returned URL to \<^verbatim>\<open>window.location.href\<close> and clears \<open>isCheckingOut\<close>; and once a
  URL has been assigned, one stays assigned through every later event of the session.
\<close>

theorem C9_redirect_then_flag_cleared:
  "location_href (handleCheckout_settle (Response True (BodyData u)) s) = Some u \<and>
   \<not> isCheckingOut (handleCheckout_settle (Response True (BodyData u)) s) \<and>
   (location_href s \<noteq> None \<longrightarrow> location_href (run evs s) \<noteq> None)"
  using run_keeps_href[of s _ evs] by (auto simp: settle_redirect)

theorem C9_redirect_then_flag_cleared_witness:
  "location_href (run [EvContinueShopping, EvCheckoutClick, EvFetchSettled NetworkError]
      redirected_state) \<noteq> None"
proof -
  have h: "location_href redirected_state \<noteq> None"
    by (simp add: redirected_state_def run_def initial_state_def addToCart_def
      checkout_enabled_def handleCheckout_start_def handleCheckout_settle_def)
  show ?thesis
    using C9_redirect_then_flag_cleared[of session_url redirected_state
        "[EvContinueShopping, EvCheckoutClick, EvFetchSettled NetworkError]"] h
    by blast
qed

section \<open>The return from the payment page and the view dispatcher\<close>

text \<open>
  C3, as stated, fails: with the query string \<^verbatim>\<open>?session_id=\<close> the marker is present,
  its value is the empty string, and the view stays \<^verbatim>\<open>home\<close>.
\<close>

theorem C3_counterexample:
  "params_get [(''session_id'', '''')] ''session_id'' = Some '''' \<and>
   currentView (mountEffect [(''session_id'', '''')] initial_state) = ''home'' \<and>
   currentView (mountEffect [(''session_id'', '''')] initial_state) \<noteq> ''success''"
  by (simp add: params_get_def mountEffect_def truthy_def initial_state_def)

text \<open>
  C3, amended: the effect at mount sets the view to \<^verbatim>\<open>success\<close> if the first
  \<^verbatim>\<open>session_id\<close> of the query string has a value that is not empty, and leaves the
  state as it is if there is no \<^verbatim>\<open>session_id\<close> or its value is empty; it never changes
  the cart.
\<close>

theorem C3_return_marker:
  "(\<forall>v. params_get ps ''session_id'' = Some v \<and> v \<noteq> [] \<longrightarrow>
      mountEffect ps s = s\<lparr>currentView := ''success''\<rparr>) \<and>
   (params_get ps ''session_id'' = None \<or> params_get ps ''session_id'' = Some [] \<longrightarrow>
      mountEffect ps s = s) \<and>
   cart (mountEffect ps s) = cart s"
  by (auto simp: mountEffect_def truthy_def)

theorem C3_return_marker_witness:
  "currentView (mountEffect [(''session_id'', ''cs_test_1'')]
     (initial_state\<lparr>cart := [with_quantity artA 1]\<rparr>)) = ''success'' \<and>
   cart (mountEffect [(''session_id'', ''cs_test_1'')]
     (initial_state\<lparr>cart := [with_quantity artA 1]\<rparr>)) = [with_quantity artA 1] \<and>
   mountEffect [(''category'', ''oil'')] initial_state = initial_state"
proof -
  let ?s = "initial_state\<lparr>cart := [with_quantity artA 1]\<rparr>"
  let ?ps = "[(''session_id'', ''cs_test_1'')]"
  have g: "params_get ?ps ''session_id'' = Some ''cs_test_1'' \<and> ''cs_test_1'' \<noteq> []"
    by (simp add: params_get_def)
  have n: "params_get [(''category'', ''oil'')] ''session_id'' = None"
    by (simp add: params_get_def)
  have 1: "mountEffect ?ps ?s = ?s\<lparr>currentView := ''success''\<rparr>"
    using C3_return_marker[of ?ps ?s] g by blast
  have 2: "mountEffect [(''category'', ''oil'')] initial_state = initial_state"
    using C3_return_marker[of "[(''category'', ''oil'')]" initial_state] n by blast
  show ?thesis using 1 2 by simp
qed

text \<open>
  C10: \<open>renderCurrentView\<close> has no case for the view \<^verbatim>\<open>success\<close> and returns the home
  page for it, and for no view does it return the success page.
\<close>

theorem C10_success_view_renders_home:
  "renderCurrentView ''success'' = HomePage \<and> (\<forall>v. renderCurrentView v \<noteq> SuccessPage)"
  by (simp add: renderCurrentView_def)

section \<open>The total of the cart\<close>

lemma foldl_exact:
  assumes "\<forall>item\<in>set c. price item \<in> \<int>"
    and "\<bar>of_int a\<bar> + abs_total c \<le> 2 ^ 53"
  shows "foldl (\<lambda>total item. js_add total (js_mul (price item) (of_int (quantity item))))
           (of_int a) c = of_int a + exact_total c"
  using assms
proof (induction c arbitrary: a)
  case Nil
  then show ?case by (simp add: exact_total_def)
next
  case (Cons item c)
  from Cons.prems(1) obtain p where p: "price item = of_int p"
    by (auto elim: Ints_cases)
  let ?m = "p * quantity item"
  have tail0: "0 \<le> abs_total c" unfolding abs_total_def by (rule sum_list_nonneg) auto
  have split: "abs_total (item # c) = \<bar>of_int ?m\<bar> + abs_total c"
    by (simp add: abs_total_def p)
  have m: "\<bar>(of_int ?m :: rat)\<bar> \<le> 2 ^ 53"
    using Cons.prems(2) tail0 split by linarith
  then have "(of_int \<bar>?m\<bar> :: rat) \<le> of_int (2 ^ 53)" by simp
  then have m': "\<bar>?m\<bar> \<le> 2 ^ 53" by (simp only: of_int_le_iff)
  have mul: "js_mul (price item) (of_int (quantity item)) = of_int ?m"
    using to_double_of_int[OF m'] by (simp add: js_mul_def p)
  have am: "\<bar>(of_int (a + ?m) :: rat)\<bar> + abs_total c \<le> 2 ^ 53"
    using Cons.prems(2) split by (simp add: abs_if split: if_splits)
  then have "\<bar>(of_int (a + ?m) :: rat)\<bar> \<le> 2 ^ 53" using tail0 by linarith
  then have "(of_int \<bar>a + ?m\<bar> :: rat) \<le> of_int (2 ^ 53)" by simp
  then have am': "\<bar>a + ?m\<bar> \<le> 2 ^ 53" by (simp only: of_int_le_iff)
  have add: "js_add (of_int a) (of_int ?m) = of_int (a + ?m)"
    using to_double_of_int[OF am'] by (simp add: js_add_def)
  have "foldl (\<lambda>total item. js_add total (js_mul (price item) (of_int (quantity item))))
           (of_int a) (item # c)
        = foldl (\<lambda>total item. js_add total (js_mul (price item) (of_int (quantity item))))
           (of_int (a + ?m)) c"
    by (simp only: foldl_Cons mul add)
  also have "\<dots> = of_int (a + ?m) + exact_total c"
    using Cons.IH[of "a + ?m"] Cons.prems(1) am by simp
  also have "\<dots> = of_int a + exact_total (item # c)"
    by (simp add: exact_total_def p)
  finally show ?case .
qed

lemma getCartTotal_exact:
  assumes "\<forall>item\<in>set c. price item \<in> \<int>" and "abs_total c \<le> 2 ^ 53"
  shows "getCartTotal c = exact_total c"
  using foldl_exact[of c 0] assms by (simp add: getCartTotal_def)

lemma mset_transfer:
  assumes "mset c' = mset c"
  shows "set c' = set c" and "abs_total c' = abs_total c"
    and "exact_total c' = exact_total c"
proof -
  show "set c' = set c" using assms by (rule mset_eq_setD)
  have "mset (map (\<lambda>item. \<bar>price item * of_int (quantity item)\<bar>) c') = mset (map (\<lambda>item. \<bar>price item * of_int (quantity item)\<bar>) c)"
    using assms by (metis mset_map)
  then show "abs_total c' = abs_total c" unfolding abs_total_def by (metis sum_mset_sum_list)
  have "mset (map (\<lambda>item. price item * of_int (quantity item)) c') = mset (map (\<lambda>item. price item * of_int (quantity item)) c)"
    using assms by (metis mset_map)
  then show "exact_total c' = exact_total c" unfolding exact_total_def by (metis sum_mset_sum_list)
qed


lemma cart_PQR:
  "run_ops [AddItem artP, AddItem artQ, AddItem artR] []
     = [with_quantity artP 1, with_quantity artQ 1, with_quantity artR 1]"
  by (simp add: run_ops_def addToCart_def with_quantity_def artP_def artQ_def artR_def)

lemma cart_RQP:
  "run_ops [AddItem artR, AddItem artQ, AddItem artP] []
     = [with_quantity artR 1, with_quantity artQ 1, with_quantity artP 1]"
  by (simp add: run_ops_def addToCart_def with_quantity_def artP_def artQ_def artR_def)

lemma prices_PQR:
  "price artP = 5626684784446013 / 2 ^ 48"
  "price artQ = 8441434551552573 / 2 ^ 48"
  "price artR = 2637948297360179 / 2 ^ 44"
  by code_simp+

lemma total_PQR:
  "getCartTotal [with_quantity artP 1, with_quantity artQ 1, with_quantity artR 1]
     = 7034411511720181 / 2 ^ 45"
  by code_simp

lemma total_RQP:
  "getCartTotal [with_quantity artR 1, with_quantity artQ 1, with_quantity artP 1]
     = 3517205755860091 / 2 ^ 44"
  by code_simp

lemma exact_PQR:
  "exact_total [with_quantity artP 1, with_quantity artQ 1, with_quantity artR 1]
     = 28137646046880725 / 2 ^ 47"
  by (simp add: exact_total_def with_quantity_def prices_PQR)

lemma exact_RQP:
  "exact_total [with_quantity artR 1, with_quantity artQ 1, with_quantity artP 1]
     = 28137646046880725 / 2 ^ 47"
  by (simp add: exact_total_def with_quantity_def prices_PQR)

text \<open>
  C8, as stated, fails. The carts reached by adding the artworks priced 19.99, 29.99 and
  149.95 in this order and in the reverse order have the same lines in reverse order;
  \<open>getCartTotal\<close> is 199.92999999999998 on the first (the double
  \<open>7034411511720181 / 2 ^ 45\<close>) and 199.93 on the second (the double
  \<open>3517205755860091 / 2 ^ 44\<close>), and neither is the sum of the three prices.
\<close>

theorem C8_counterexample:
  "run_ops [AddItem artR, AddItem artQ, AddItem artP] []
     = rev (run_ops [AddItem artP, AddItem artQ, AddItem artR] []) \<and>
   getCartTotal (run_ops [AddItem artP, AddItem artQ, AddItem artR] [])
     = 7034411511720181 / 2 ^ 45 \<and>
   getCartTotal (run_ops [AddItem artR, AddItem artQ, AddItem artP] [])
     = 3517205755860091 / 2 ^ 44 \<and>
   getCartTotal (run_ops [AddItem artR, AddItem artQ, AddItem artP] [])
     \<noteq> getCartTotal (run_ops [AddItem artP, AddItem artQ, AddItem artR] []) \<and>
   getCartTotal (run_ops [AddItem artP, AddItem artQ, AddItem artR] [])
     \<noteq> exact_total (run_ops [AddItem artP, AddItem artQ, AddItem artR] []) \<and>
   getCartTotal (run_ops [AddItem artR, AddItem artQ, AddItem artP] [])
     \<noteq> exact_total (run_ops [AddItem artR, AddItem artQ, AddItem artP] [])"
  unfolding cart_PQR cart_RQP total_PQR total_RQP exact_PQR exact_RQP
  by simp

text \<open>
  C8, amended: on a cart whose prices are integers and whose amounts, price times
  quantity, have magnitudes that sum to at most \<open>2 ^ 53\<close>, \<open>getCartTotal\<close> is the sum
  over the lines of price times quantity, and it is the same on every cart with the same
  lines in another order. This holds of every such cart, so of every one that a sequence
  of cart operations reaches.
\<close>

theorem C8_total_of_integer_prices:
  assumes "\<forall>item\<in>set c. price item \<in> \<int>" and "abs_total c \<le> 2 ^ 53"
  shows "getCartTotal c = exact_total c \<and>
         (\<forall>c'. mset c' = mset c \<longrightarrow> getCartTotal c' = getCartTotal c)"
proof (intro conjI allI impI)
  show exact: "getCartTotal c = exact_total c"
    using assms by (rule getCartTotal_exact)
  fix c'
  assume perm: "mset c' = mset c"
  have "getCartTotal c' = exact_total c'"
    using assms mset_transfer(1,2)[OF perm] by (intro getCartTotal_exact) simp_all
  then show "getCartTotal c' = getCartTotal c"
    using exact mset_transfer(3)[OF perm] by simp
qed

theorem C8_total_of_integer_prices_witness:
  "getCartTotal (run_ops [AddItem artA, AddItem artA, AddItem artB] []) = 250 \<and>
   getCartTotal (rev (run_ops [AddItem artA, AddItem artA, AddItem artB] []))
     = getCartTotal (run_ops [AddItem artA, AddItem artA, AddItem artB] [])"
proof -
  let ?c = "run_ops [AddItem artA, AddItem artA, AddItem artB] []"
  have c: "?c = [with_quantity artA 2, with_quantity artB 1]"
    by (simp add: run_ops_def addToCart_def with_quantity_def artA_def artB_def plus_one_1)
  have h1: "\<forall>item\<in>set ?c. price item \<in> \<int>"
    unfolding c by (simp add: with_quantity_def artA_def artB_def)
  have h2: "abs_total ?c \<le> 2 ^ 53"
    unfolding c by (simp add: abs_total_def with_quantity_def artA_def artB_def)
  have e: "exact_total ?c = 250"
    unfolding c by (simp add: exact_total_def with_quantity_def artA_def artB_def)
  have p: "mset (rev ?c) = mset ?c" by simp
  show ?thesis
    using C8_total_of_integer_prices[OF h1 h2] e p by metis
qed

end
